theory Spec2Isabelle
  imports Complex_Main
begin

section \<open>JavaScript values\<close>

text \<open>
  The cells of a decoded sheet are strings, numbers, booleans, \<open>null\<close> or \<open>undefined\<close>
  (\<open>sheet_to_json\<close> with \<open>header: 1\<close>).  A number is a finite rational (every finite
  double is one; \<open>-0\<close> and \<open>+0\<close> are identified, no operation below tells them apart)
  or \<open>NaN\<close>, which \<open>parseInt\<close> produces.  A string is a list of code units below 256,
  so of the white space of ECMAScript only the characters of that range are modelled.
\<close>

datatype jsnum = NaN | Fin rat

datatype jsval = JNull | JUndefined | JBool bool | JNum jsnum | JStr string

text \<open>ToBoolean: what \<open>||\<close>, \<open>!\<close> and \<open>if\<close> test.\<close>

fun truthy :: "jsval \<Rightarrow> bool" where
  "truthy JNull = False"
| "truthy JUndefined = False"
| "truthy (JBool b) = b"
| "truthy (JNum NaN) = False"
| "truthy (JNum (Fin x)) = (x \<noteq> 0)"
| "truthy (JStr s) = (s \<noteq> [])"

text \<open>\<open>a || b\<close>\<close>

definition js_or :: "jsval \<Rightarrow> jsval \<Rightarrow> jsval" where
  "js_or a b = (if truthy a then a else b)"

text \<open>\<open>a === b\<close>: equal type and value, and \<open>NaN\<close> equals nothing.\<close>

definition strict_eq :: "jsval \<Rightarrow> jsval \<Rightarrow> bool" where
  "strict_eq a b = (a = b \<and> a \<noteq> JNum NaN)"

text \<open>\<open>row[colIndex]\<close>: reading past the end of an array gives \<open>undefined\<close>.\<close>

definition js_index :: "jsval list \<Rightarrow> nat \<Rightarrow> jsval" where
  "js_index row colIndex = (if colIndex < length row then row ! colIndex else JUndefined)"

section \<open>parseInt\<close>

text \<open>
  \<open>parseInt(string)\<close> with no radix, as ECMAScript defines it: leading white space is
  dropped, then an optional sign, then an optional \<open>0x\<close>/\<open>0X\<close> (radix 16, otherwise 10);
  the longest prefix of digits of the radix is read, and no digit at all gives \<open>NaN\<close>.
  The model returns the exact integer the digits denote. JavaScript returns the same
  number as long as it is below \<open>2^53\<close> in magnitude; from there on it returns the nearest
  double, and \<open>Infinity\<close> for a very long string, which the model does not follow. Every
  property below that depends on the number read is stated under that bound.
\<close>

definition is_white_space :: "char \<Rightarrow> bool" where
  "is_white_space c = ((of_char c :: nat) \<in> set [9, 10, 11, 12, 13, 32, 160])"

definition digit_value :: "char \<Rightarrow> nat option" where
  "digit_value c =
     (let n = (of_char c :: nat) in
      if 48 \<le> n \<and> n \<le> 57 then Some (n - 48)
      else if 97 \<le> n \<and> n \<le> 122 then Some (n - 87)
      else if 65 \<le> n \<and> n \<le> 90 then Some (n - 55)
      else None)"

definition radix_digit :: "nat \<Rightarrow> char \<Rightarrow> nat option" where
  "radix_digit R c =
     (case digit_value c of
        None \<Rightarrow> None
      | Some d \<Rightarrow> if d < R then Some d else None)"

definition digits_value :: "nat \<Rightarrow> string \<Rightarrow> nat" where
  "digits_value R Z = foldl (\<lambda>a c. a * R + the (radix_digit R c)) 0 Z"

definition parseInt :: "string \<Rightarrow> jsnum" where
  "parseInt inputString =
     (let S = dropWhile is_white_space inputString;
          sign = (if S \<noteq> [] \<and> hd S = CHR ''-'' then - 1 else 1 :: int);
          S1 = (if S \<noteq> [] \<and> (hd S = CHR ''+'' \<or> hd S = CHR ''-'') then tl S else S);
          hex = (2 \<le> length S1 \<and> (take 2 S1 = ''0x'' \<or> take 2 S1 = ''0X''));
          R = (if hex then 16 else 10);
          S2 = (if hex then drop 2 S1 else S1);
          Z = takeWhile (\<lambda>c. radix_digit R c \<noteq> None) S2
      in if Z = [] then NaN else Fin (of_int (sign * int (digits_value R Z))))"

text \<open>
  \<open>x / d\<close> for a non-zero literal \<open>d\<close>, and \<open>Math.ceil\<close>, on exact rationals. For an
  integer \<open>x\<close> below \<open>2^53\<close> in magnitude the double \<open>x / 20\<close> lies within \<open>1/32\<close> of the
  exact quotient, which is an integer or at least \<open>1/20\<close> away from one, so
  \<open>Math.ceil(x / 20)\<close> is the exact ceiling.
\<close>

fun js_div :: "jsnum \<Rightarrow> rat \<Rightarrow> jsnum" where
  "js_div NaN d = NaN"
| "js_div (Fin x) d = Fin (x / d)"

fun math_ceil :: "jsnum \<Rightarrow> jsnum" where
  "math_ceil NaN = NaN"
| "math_ceil (Fin x) = Fin (of_int \<lceil>x\<rceil>)"

section \<open>Rows and gate records\<close>

text \<open>
  What the parser throws: \<open>DataEmpty\<close> is the \<open>Error\<close> of \<open>validateData\<close> (its message
  says that the data is empty), \<open>TypeError\<close> is JavaScript's own, raised by a call of a
  method the value does not have or by a property read on \<open>null\<close>.
\<close>

datatype error = DataEmpty | TypeError

text \<open>The object \<open>parseGateRow\<close> returns. \<open>mod_no\<close> is the field \<open>mod\<close> of the source.\<close>

record gate =
  mcn_no :: jsval
  serial_no2 :: jsval
  rev_flag :: jsval
  wo_dtl_id :: jsval
  fo_desc :: jsval
  sts :: jsval
  working_rate :: jsval
  start_dt :: jsval
  end_dt :: jsval
  plan_start_dt :: jsval
  plan_end_dt :: jsval
  work_st :: jsval
  worker_id :: jsval
  worker_nm :: jsval
  skirt_qty :: jsval
  proj_color :: jsval
  cur_time :: jsval
  plant :: jsval
  mod_no :: jsnum
  gateNumber :: jsnum
  jointStatuses :: "jsval list"
  skirtStatuses :: "jsval list"
  rowIndex :: nat
  isReverse :: bool

definition getCellValue :: "jsval list \<Rightarrow> nat \<Rightarrow> jsval" where
  "getCellValue row colIndex =
     (let v = js_index row colIndex in
      if v = JNull \<or> v = JUndefined \<or> v = JStr [] then JNull
      else if v = JStr ''B'' then JStr ''B''
      else v)"

text \<open>
  The two loops \<open>for (i = lo; i < hi; i++) xs.push(getCellValue(row, i) || 'B')\<close>.
\<close>

definition status_cells :: "jsval list \<Rightarrow> nat \<Rightarrow> nat \<Rightarrow> jsval list" where
  "status_cells row lo hi = map (\<lambda>i. js_or (getCellValue row i) (JStr ''B'')) [lo..<hi]"

text \<open>
  \<open>mcn_no?.replace('G', '') || '0'\<close>, the argument of \<open>parseInt\<close>.  On \<open>null\<close> the
  optional chain gives \<open>undefined\<close>, so the argument is \<open>'0'\<close>; on a string the first
  \<open>G\<close> is removed and an empty rest is replaced by \<open>'0'\<close>; a number or a boolean has no
  method \<open>replace\<close>, and calling it throws.
\<close>

fun gate_number_text :: "jsval \<Rightarrow> error + string" where
  "gate_number_text JNull = Inr ''0''"
| "gate_number_text JUndefined = Inr ''0''"
| "gate_number_text (JStr s) =
     Inr (let r = remove1 (CHR ''G'') s in if r = [] then ''0'' else r)"
| "gate_number_text (JNum n) = Inl TypeError"
| "gate_number_text (JBool b) = Inl TypeError"

text \<open>
  \<open>parseGateRow\<close>. Only the call of \<open>replace\<close> can throw, and nothing before it has an
  effect, so the model tests it first. \<open>flag\<close>, \<open>joints\<close>, \<open>skirts\<close>, \<open>number\<close> and \<open>m\<close> are
  the source's \<open>rev_flag\<close>, \<open>jointStatuses\<close>, \<open>skirtStatuses\<close>, \<open>gateNumber\<close> and \<open>mod\<close>;
  \<open>slice(1)\<close> is \<open>drop 1\<close>.
\<close>

definition parseGateRow :: "jsval list \<Rightarrow> nat \<Rightarrow> error + gate" where
  "parseGateRow row index =
     (let flag = js_or (getCellValue row 2) (JNum (Fin 0));
          joints = status_cells row 17 37;
          skirts = status_cells row 38 58
      in case gate_number_text (getCellValue row 0) of
           Inl e \<Rightarrow> Inl e
         | Inr txt \<Rightarrow>
             let number = parseInt txt;
                 m = math_ceil (js_div number 20);
                 joints' = (if strict_eq flag (JNum (Fin 1))
                            then JNull # rev (drop 1 joints) else joints)
             in Inr \<lparr>mcn_no = getCellValue row 0,
                     serial_no2 = getCellValue row 1,
                     rev_flag = flag,
                     wo_dtl_id = getCellValue row 3,
                     fo_desc = getCellValue row 4,
                     sts = getCellValue row 5,
                     working_rate = getCellValue row 6,
                     start_dt = getCellValue row 7,
                     end_dt = getCellValue row 8,
                     plan_start_dt = getCellValue row 9,
                     plan_end_dt = getCellValue row 10,
                     work_st = getCellValue row 11,
                     worker_id = getCellValue row 12,
                     worker_nm = getCellValue row 13,
                     skirt_qty = js_or (getCellValue row 14) (JNum (Fin 0)),
                     proj_color = getCellValue row 15,
                     cur_time = getCellValue row 16,
                     plant = getCellValue row 37,
                     mod_no = m,
                     gateNumber = number,
                     jointStatuses = joints',
                     skirtStatuses = skirts,
                     rowIndex = index,
                     isReverse = strict_eq flag (JNum (Fin 1))\<rparr>)"

section \<open>The parser object\<close>

text \<open>
  The three fields of \<open>ExcelParser\<close>. \<open>rawData\<close> is \<open>null\<close> (\<open>None\<close>) until a sheet has been
  decoded; then it is the array of the sheet's rows, the header first.
\<close>

record parser =
  rawData :: "jsval list list option"
  gates :: "gate list"
  isLoaded :: bool

definition new_parser :: parser where
  "new_parser = \<lparr>rawData = None, gates = [], isLoaded = False\<rparr>"

text \<open>\<open>validateData\<close> throws on no data; a row count other than 60 is only logged.\<close>

definition validateData :: "parser \<Rightarrow> error + unit" where
  "validateData p =
     (case rawData p of
        None \<Rightarrow> Inl DataEmpty
      | Some rows \<Rightarrow> if length rows = 0 then Inl DataEmpty else Inr ())"

text \<open>
  The body of \<open>parseGates\<close> on the data rows: \<open>map\<close> with the row's index, \<open>null\<close> for a
  row whose \<open>parseGateRow\<close> throws, then \<open>filter(gate => gate !== null)\<close>.
\<close>

definition try_row :: "jsval list \<times> nat \<Rightarrow> gate option" where
  "try_row = (\<lambda>(row, index).
     case parseGateRow row index of Inl e \<Rightarrow> None | Inr g \<Rightarrow> Some g)"

definition gates_of_rows :: "jsval list list \<Rightarrow> gate list" where
  "gates_of_rows dataRows =
     map the (filter (\<lambda>gate. gate \<noteq> None)
       (map try_row (zip dataRows [0..<length dataRows])))"

definition parseGates :: "parser \<Rightarrow> error + parser" where
  "parseGates p =
     (case rawData p of
        None \<Rightarrow> Inl TypeError
      | Some rows \<Rightarrow> Inr (p\<lparr>gates := gates_of_rows (drop 1 rows)\<rparr>))"

text \<open>
  \<open>loadExcel\<close> from its step 4 on: \<open>table\<close> is what the decoder returned for the first
  sheet.  The result is the returned array or the error thrown, with the parser as the
  call leaves it.
\<close>

definition loadExcel :: "jsval list list \<Rightarrow> parser \<Rightarrow> (error + gate list) \<times> parser" where
  "loadExcel table p =
     (let p1 = p\<lparr>rawData := Some table\<rparr> in
      case validateData p1 of
        Inl e \<Rightarrow> (Inl e, p1)
      | Inr u \<Rightarrow>
          (case parseGates p1 of
             Inl e \<Rightarrow> (Inl e, p1)
           | Inr p2 \<Rightarrow> (Inr (gates p2), p2\<lparr>isLoaded := True\<rparr>)))"

section \<open>Queries\<close>

definition filterByMod :: "jsval \<Rightarrow> parser \<Rightarrow> gate list" where
  "filterByMod m p =
     (if \<not> truthy m then gates p
      else filter (\<lambda>gate. strict_eq (JNum (mod_no gate)) m) (gates p))"

text \<open>
  \<open>statusCount\<close> is an object literal \<open>{}\<close>: its own properties, in the order they were
  added, over the properties every object inherits from \<open>Object.prototype\<close>.  A stored
  value is a number or, once an inherited function or object has been added to \<open>1\<close>, a
  text (the inherited value's text followed by \<open>1\<close>s; what it spells is not tracked).
\<close>

datatype cval = CNum nat | CText

datatype lookup = Own cval | Inherited | Missing

definition object_prototype_names :: "string list" where
  "object_prototype_names =
     [''constructor'', ''hasOwnProperty'', ''isPrototypeOf'', ''propertyIsEnumerable'',
      ''toLocaleString'', ''toString'', ''valueOf'', ''__proto__'',
      ''__defineGetter__'', ''__defineSetter__'', ''__lookupGetter__'',
      ''__lookupSetter__'']"

definition get_prop :: "(string \<times> cval) list \<Rightarrow> string \<Rightarrow> lookup" where
  "get_prop obj k =
     (case map_of obj k of
        Some v \<Rightarrow> Own v
      | None \<Rightarrow> if k \<in> set object_prototype_names then Inherited else Missing)"

fun set_own :: "string \<Rightarrow> cval \<Rightarrow> (string \<times> cval) list \<Rightarrow> (string \<times> cval) list" where
  "set_own k v [] = [(k, v)]"
| "set_own k v ((k', v') # obj) =
     (if k = k' then (k, v) # obj else (k', v') # set_own k v obj)"

text \<open>
  \<open>obj[k] = v\<close> for a primitive \<open>v\<close>: the inherited setter of \<open>__proto__\<close> ignores it,
  any other key becomes or stays an own property.
\<close>

definition set_prop :: "(string \<times> cval) list \<Rightarrow> string \<Rightarrow> cval \<Rightarrow> (string \<times> cval) list" where
  "set_prop obj k v = (if k = ''__proto__'' then obj else set_own k v obj)"

text \<open>\<open>(x || 0) + 1\<close>: a number is incremented, a text or an object is concatenated.\<close>

fun or_zero_plus_one :: "lookup \<Rightarrow> cval" where
  "or_zero_plus_one Missing = CNum 1"
| "or_zero_plus_one (Own (CNum n)) = CNum (n + 1)"
| "or_zero_plus_one (Own CText) = CText"
| "or_zero_plus_one Inherited = CText"

text \<open>
  The property key of a status value (ToString).  The text of a number is the built-in
  \<open>Number::toString\<close>, taken as the parameter \<open>num_text\<close>.
\<close>

fun property_key :: "(rat \<Rightarrow> string) \<Rightarrow> jsval \<Rightarrow> string" where
  "property_key num_text (JStr s) = s"
| "property_key num_text (JNum (Fin x)) = num_text x"
| "property_key num_text (JNum NaN) = ''NaN''"
| "property_key num_text (JBool b) = (if b then ''true'' else ''false'')"
| "property_key num_text JNull = ''null''"
| "property_key num_text JUndefined = ''undefined''"

definition count_status ::
    "(rat \<Rightarrow> string) \<Rightarrow> (string \<times> cval) list \<Rightarrow> gate \<Rightarrow> (string \<times> cval) list" where
  "count_status num_text obj gate =
     (let status = property_key num_text (js_or (sts gate) (JStr ''Unknown''))
      in set_prop obj status (or_zero_plus_one (get_prop obj status)))"

record summary =
  totalGates :: nat
  mod1 :: nat
  mod2 :: nat
  mod3 :: nat
  statusCount :: "(string \<times> cval) list"
  reverseCount :: nat

text \<open>What \<open>getSummary\<close> returns: the object \<open>{ error: message }\<close> or the summary.\<close>

datatype summary_result = NotLoaded | Summary summary

definition getSummary :: "(rat \<Rightarrow> string) \<Rightarrow> parser \<Rightarrow> summary_result" where
  "getSummary num_text p =
     (if \<not> isLoaded p then NotLoaded
      else Summary
        \<lparr>totalGates = length (gates p),
         mod1 = length (filterByMod (JNum (Fin 1)) p),
         mod2 = length (filterByMod (JNum (Fin 2)) p),
         mod3 = length (filterByMod (JNum (Fin 3)) p),
         statusCount = foldl (count_status num_text) [] (gates p),
         reverseCount = length (filter isReverse (gates p))\<rparr>)"

section \<open>An example sheet\<close>

text \<open>
  A header and five data rows: a reversed gate \<open>G21\<close> with status \<open>S\<close>, whose joint cells
  start \<open>a, b, 0, c\<close>; a row whose gate number is the number 3, which
  \<open>parseGateRow\<close> cannot read; a gate \<open>G01\<close> whose flag is the text \<open>1\<close> and whose first
  joint cell is the number 0; an empty row; and a gate \<open>GX\<close>.
\<close>

definition example_row_a :: "jsval list" where
  "example_row_a =
     [JStr ''G21'', JStr ''A1'', JNum (Fin 1), JNull, JNull, JStr ''S'']
     @ replicate 11 JNull @ [JStr ''a'', JStr ''b'', JNum (Fin 0), JStr ''c'']"

definition example_row_b :: "jsval list" where
  "example_row_b = [JNum (Fin 3)]"

definition example_row_c :: "jsval list" where
  "example_row_c =
     [JStr ''G01'', JStr [], JStr ''1''] @ replicate 14 JNull @ [JNum (Fin 0), JStr ''x'']"

definition example_table :: "jsval list list" where
  "example_table =
     [[JStr ''mcn_no''], example_row_a, example_row_b, example_row_c, [], [JStr ''GX'']]"

definition blank_gate :: gate where
  "blank_gate =
     \<lparr>mcn_no = JNull, serial_no2 = JNull, rev_flag = JNum (Fin 0), wo_dtl_id = JNull,
      fo_desc = JNull, sts = JNull, working_rate = JNull, start_dt = JNull, end_dt = JNull,
      plan_start_dt = JNull, plan_end_dt = JNull, work_st = JNull, worker_id = JNull,
      worker_nm = JNull, skirt_qty = JNum (Fin 0), proj_color = JNull, cur_time = JNull,
      plant = JNull, mod_no = Fin 0, gateNumber = Fin 0,
      jointStatuses = replicate 20 (JStr ''B''), skirtStatuses = replicate 20 (JStr ''B''),
      rowIndex = 0, isReverse = False\<rparr>"

definition example_gate_a :: gate where
  "example_gate_a =
     blank_gate\<lparr>mcn_no := JStr ''G21'', serial_no2 := JStr ''A1'', rev_flag := JNum (Fin 1),
       sts := JStr ''S'', mod_no := Fin 2, gateNumber := Fin 21,
       jointStatuses := JNull # replicate 16 (JStr ''B'') @ [JStr ''c'', JStr ''B'', JStr ''b''],
       isReverse := True\<rparr>"

definition example_gate_c :: gate where
  "example_gate_c =
     blank_gate\<lparr>mcn_no := JStr ''G01'', rev_flag := JStr ''1'', mod_no := Fin 1,
       gateNumber := Fin 1,
       jointStatuses := [JStr ''B'', JStr ''x''] @ replicate 18 (JStr ''B''),
       rowIndex := 2\<rparr>"

definition example_gate_d :: gate where
  "example_gate_d = blank_gate\<lparr>rowIndex := 3\<rparr>"

definition example_gate_e :: gate where
  "example_gate_e =
     blank_gate\<lparr>mcn_no := JStr ''GX'', mod_no := NaN, gateNumber := NaN, rowIndex := 4\<rparr>"

definition example_gates :: "gate list" where
  "example_gates = [example_gate_a, example_gate_c, example_gate_d, example_gate_e]"

text \<open>
  A second sheet, of gate numbers of other shapes: a sign, a hexadecimal number, and a
  \<open>G\<close> that is not the first character.
\<close>

definition example_id_table :: "jsval list list" where
  "example_id_table =
     [[JStr ''mcn_no''], [JStr ''G-21''], [JStr ''G0x1F''], [JStr ''1G25'']]"

definition example_gate_f :: gate where
  "example_gate_f =
     blank_gate\<lparr>mcn_no := JStr ''G-21'', mod_no := Fin (- 1), gateNumber := Fin (- 21)\<rparr>"

definition example_gate_h :: gate where
  "example_gate_h =
     blank_gate\<lparr>mcn_no := JStr ''G0x1F'', mod_no := Fin 2, gateNumber := Fin 31,
       rowIndex := 1\<rparr>"

definition example_gate_i :: gate where
  "example_gate_i =
     blank_gate\<lparr>mcn_no := JStr ''1G25'', mod_no := Fin 7, gateNumber := Fin 125,
       rowIndex := 2\<rparr>"

definition example_id_gates :: "gate list" where
  "example_id_gates = [example_gate_f, example_gate_h, example_gate_i]"

section \<open>Vocabulary of the properties\<close>

text \<open>A cell that is the empty string, \<open>null\<close> or absent.\<close>

definition blank_cell :: "jsval \<Rightarrow> bool" where
  "blank_cell v = (v = JStr [] \<or> v = JNull \<or> v = JUndefined)"

text \<open>
  The scalar fields whose default is \<open>null\<close>, in the order of the source, and the column
  each is read from.
\<close>

definition scalar_fields :: "gate \<Rightarrow> jsval list" where
  "scalar_fields g =
     [mcn_no g, serial_no2 g, wo_dtl_id g, fo_desc g, sts g, working_rate g, start_dt g,
      end_dt g, plan_start_dt g, plan_end_dt g, work_st g, worker_id g, worker_nm g,
      proj_color g, cur_time g, plant g]"

definition scalar_offsets :: "nat list" where
  "scalar_offsets = [0, 1, 3, 4, 5, 6, 7, 8, 9, 10, 11, 12, 13, 15, 16, 37]"

text \<open>A stored count that is a number, the number it is, and the sum of an object's counts.\<close>

fun numeric :: "cval \<Rightarrow> bool" where
  "numeric (CNum n) = True"
| "numeric CText = False"

fun count_of :: "cval \<Rightarrow> nat" where
  "count_of (CNum n) = n"
| "count_of CText = 0"

definition counts_sum :: "(string \<times> cval) list \<Rightarrow> nat" where
  "counts_sum obj = sum_list (map (\<lambda>kv. count_of (snd kv)) obj)"

definition status_key :: "(rat \<Rightarrow> string) \<Rightarrow> gate \<Rightarrow> string" where
  "status_key num_text g = property_key num_text (js_or (sts g) (JStr ''Unknown''))"

text \<open>The number a string of decimal digits denotes.\<close>

definition is_decimal_digit :: "char \<Rightarrow> bool" where
  "is_decimal_digit c = (48 \<le> (of_char c :: nat) \<and> (of_char c :: nat) \<le> 57)"

fun decimal :: "string \<Rightarrow> nat" where
  "decimal [] = 0"
| "decimal (c # cs) = (of_char c - 48) * 10 ^ length cs + decimal cs"

section \<open>Rows, records and the build\<close>

text \<open>What a record that \<open>parseGateRow\<close> returns holds, field by field.\<close>

lemma parseGateRow_fields:
  assumes "parseGateRow row index = Inr g"
  shows "jointStatuses g =
           (if isReverse g then JNull # rev (drop 1 (status_cells row 17 37))
            else status_cells row 17 37)"
    and "skirtStatuses g = status_cells row 38 58"
    and "rev_flag g = js_or (getCellValue row 2) (JNum (Fin 0))"
    and "isReverse g = strict_eq (rev_flag g) (JNum (Fin 1))"
    and "rowIndex g = index"
    and "mod_no g = math_ceil (js_div (gateNumber g) 20)"
    and "gate_number_text (getCellValue row 0) = Inr txt \<Longrightarrow> gateNumber g = parseInt txt"
    and "\<not> isl (gate_number_text (getCellValue row 0))"
    and "mcn_no g = getCellValue row 0"
    and "sts g = getCellValue row 5"
  using assms
  by (auto simp: parseGateRow_def Let_def split: sum.splits)

lemma parseGateRow_scalars:
  assumes "parseGateRow row index = Inr g"
  shows "[mcn_no g, serial_no2 g, wo_dtl_id g, fo_desc g, sts g, working_rate g, start_dt g,
          end_dt g, plan_start_dt g, plan_end_dt g, work_st g, worker_id g, worker_nm g,
          proj_color g, cur_time g, plant g] =
         map (getCellValue row) [0, 1, 3, 4, 5, 6, 7, 8, 9, 10, 11, 12, 13, 15, 16, 37]"
    and "skirt_qty g = js_or (getCellValue row 14) (JNum (Fin 0))"
  using assms
  by (auto simp: parseGateRow_def Let_def split: sum.splits)

lemma zip_upt_conv: "zip rows [0..<length rows] = map (\<lambda>i. (rows ! i, i)) [0..<length rows]"
  by (rule nth_equalityI) simp_all

lemma gates_of_rows_eq:
  "gates_of_rows rows =
     map (\<lambda>i. projr (parseGateRow (rows ! i) i))
       (filter (\<lambda>i. \<not> isl (parseGateRow (rows ! i) i)) [0..<length rows])"
proof -
  have ok: "(try_row (rows ! i, i) \<noteq> None) = (\<not> isl (parseGateRow (rows ! i) i))" for i
    by (simp add: try_row_def split: sum.splits)
  have val: "the (try_row (rows ! i, i)) = projr (parseGateRow (rows ! i) i)"
    if "\<not> isl (parseGateRow (rows ! i) i)" for i
    using that by (cases "parseGateRow (rows ! i) i") (simp_all add: try_row_def)
  have "map the (filter (\<lambda>gate. gate \<noteq> None) (map try_row (map (\<lambda>i. (rows ! i, i)) xs))) =
        map (\<lambda>i. projr (parseGateRow (rows ! i) i))
          (filter (\<lambda>i. \<not> isl (parseGateRow (rows ! i) i)) xs)" for xs
  proof (induction xs)
    case Nil
    show ?case by simp
  next
    case (Cons i xs)
    show ?case
      using Cons.IH ok [of i] val [of i] by (cases "isl (parseGateRow (rows ! i) i)") auto
  qed
  then show ?thesis
    unfolding gates_of_rows_def zip_upt_conv .
qed

lemma gates_of_rows_member:
  assumes "g \<in> set (gates_of_rows rows)"
  shows "rowIndex g < length rows \<and> parseGateRow (rows ! rowIndex g) (rowIndex g) = Inr g"
proof -
  from assms obtain i where i: "i < length rows" "\<not> isl (parseGateRow (rows ! i) i)"
      "g = projr (parseGateRow (rows ! i) i)"
    by (auto simp: gates_of_rows_eq)
  then have "parseGateRow (rows ! i) i = Inr g"
    by (cases "parseGateRow (rows ! i) i") auto
  with i(1) show ?thesis
    using parseGateRow_fields(5) by blast
qed

lemma loadExcel_empty: "loadExcel [] p = (Inl DataEmpty, p\<lparr>rawData := Some []\<rparr>)"
  by (simp add: loadExcel_def validateData_def)

lemma loadExcel_nonempty:
  "table \<noteq> [] \<Longrightarrow>
   loadExcel table p =
     (Inr (gates_of_rows (drop 1 table)),
      p\<lparr>rawData := Some table, gates := gates_of_rows (drop 1 table), isLoaded := True\<rparr>)"
  by (simp add: loadExcel_def validateData_def parseGates_def)

lemma loadExcel_gate:
  assumes "fst (loadExcel table p) = Inr gs" and "g \<in> set gs"
  shows "Suc (rowIndex g) < length table \<and>
         parseGateRow (table ! Suc (rowIndex g)) (rowIndex g) = Inr g"
proof (cases "table = []")
  case True
  with assms show ?thesis by (simp add: loadExcel_empty)
next
  case False
  with assms have "g \<in> set (gates_of_rows (drop 1 table))"
    by (simp add: loadExcel_nonempty)
  from gates_of_rows_member[OF this] show ?thesis
    by (auto simp: less_diff_conv)
qed

text \<open>The status slots: what the two loops store, and where the reverse rule puts it.\<close>

lemma length_status_cells: "length (status_cells row lo hi) = hi - lo"
  by (simp add: status_cells_def)

lemma status_cells_nth:
  "j < hi - lo \<Longrightarrow>
   status_cells row lo hi ! j = js_or (getCellValue row (lo + j)) (JStr ''B'')"
  by (simp add: status_cells_def)

lemma status_slot:
  "js_or (getCellValue row i) (JStr ''B'') =
     (if truthy (js_index row i) then js_index row i else JStr ''B'')"
  by (cases "js_index row i") (auto simp: js_or_def getCellValue_def)

lemma status_cells_truthy: "v \<in> set (status_cells row lo hi) \<Longrightarrow> truthy v"
  by (auto simp: status_cells_def status_slot)

lemma reversed_nth:
  assumes "length ext = 20" and "1 \<le> k" and "k \<le> 19"
  shows "(JNull # rev (drop 1 ext)) ! k = ext ! (20 - k)"
proof -
  from assms obtain k' where k: "k = Suc k'" and "k' < 19"
    by (cases k) auto
  with assms have "rev (drop 1 ext) ! k' = drop 1 ext ! (19 - Suc k')"
    by (simp add: rev_nth)
  moreover have "1 + (19 - Suc k') = 20 - k"
    using \<open>k' < 19\<close> k by arith
  then have "drop 1 ext ! (19 - Suc k') = ext ! (20 - k)"
    using assms(1) \<open>k' < 19\<close> by (simp only: nth_drop)
  ultimately show ?thesis
    by (simp add: k)
qed

lemma isReverse_iff:
  "parseGateRow row index = Inr g \<Longrightarrow> isReverse g = (rev_flag g = JNum (Fin 1))"
  by (auto simp: parseGateRow_fields(4) strict_eq_def)

lemma blank_slot:
  "blank_cell (js_index row i) \<Longrightarrow> js_or (getCellValue row i) (JStr ''B'') = JStr ''B''"
  by (auto simp: blank_cell_def status_slot)

lemma blank_scalar: "blank_cell (js_index row i) \<Longrightarrow> getCellValue row i = JNull"
  by (auto simp: blank_cell_def getCellValue_def)

text \<open>What \<open>parseInt\<close> reads from a string of decimal digits, and from no digit.\<close>

lemma decimal_digit_facts:
  assumes "is_decimal_digit c"
  shows "radix_digit 10 c = Some (of_char c - 48)"
    and "\<not> is_white_space c" and "c \<noteq> CHR ''-''" and "c \<noteq> CHR ''+''"
    and "c \<noteq> CHR ''x''" and "c \<noteq> CHR ''X''"
  using assms
  by (auto simp: is_decimal_digit_def radix_digit_def digit_value_def is_white_space_def Let_def)

lemma not_decimal_digit: "\<not> is_decimal_digit c \<Longrightarrow> radix_digit 10 c = None"
  by (auto simp: is_decimal_digit_def radix_digit_def digit_value_def Let_def)

lemma foldl_decimal:
  "list_all is_decimal_digit ds \<Longrightarrow>
   foldl (\<lambda>a c. a * 10 + the (radix_digit 10 c)) a ds = a * 10 ^ length ds + decimal ds"
  by (induction ds arbitrary: a) (simp_all add: decimal_digit_facts(1) algebra_simps)

lemma parseInt_plain:
  assumes "dropWhile is_white_space s = s"
    and "hd s \<noteq> CHR ''+''" and "hd s \<noteq> CHR ''-''"
    and "take 2 s \<noteq> ''0x''" and "take 2 s \<noteq> ''0X''"
  shows "parseInt s =
           (if takeWhile (\<lambda>c. radix_digit 10 c \<noteq> None) s = [] then NaN
            else Fin (of_nat (digits_value 10 (takeWhile (\<lambda>c. radix_digit 10 c \<noteq> None) s))))"
  unfolding parseInt_def Let_def
  by (simp only: assms if_False simp_thms mult_1 of_int_of_nat_eq)

lemma parseInt_decimal:
  assumes "ds \<noteq> []" and "list_all is_decimal_digit ds"
  shows "parseInt ds = Fin (of_nat (decimal ds))"
proof -
  from assms obtain c cs where ds: "ds = c # cs" and c: "is_decimal_digit c"
    and cs: "list_all is_decimal_digit cs"
    by (cases ds) auto
  have hex: "take 2 ds \<noteq> ''0x''" "take 2 ds \<noteq> ''0X''"
    using cs decimal_digit_facts(5,6) by (cases cs; auto simp: ds)+
  have all: "takeWhile (\<lambda>c. radix_digit 10 c \<noteq> None) ds = ds"
    using assms(2) by (auto simp: list_all_iff decimal_digit_facts(1))
  have ws: "dropWhile is_white_space ds = ds"
    using c by (simp add: ds decimal_digit_facts(2))
  have sign: "hd ds \<noteq> CHR ''+''" "hd ds \<noteq> CHR ''-''"
    using c by (simp_all add: ds decimal_digit_facts(3,4))
  have "digits_value 10 ds = decimal ds"
    using foldl_decimal [OF assms(2), of 0] by (simp add: digits_value_def)
  then show ?thesis
    unfolding parseInt_plain [OF ws sign hex] all using assms(1) by simp
qed

lemma parseInt_no_digit:
  assumes "\<not> is_white_space c" and "c \<noteq> CHR ''+''" and "c \<noteq> CHR ''-''"
    and "\<not> is_decimal_digit c"
  shows "parseInt (c # cs) = NaN"
proof -
  have "c \<noteq> CHR ''0''"
    using assms(4) by (auto simp: is_decimal_digit_def)
  then have hex: "take 2 (c # cs) \<noteq> ''0x''" "take 2 (c # cs) \<noteq> ''0X''"
    by (cases cs; simp)+
  have ws: "dropWhile is_white_space (c # cs) = c # cs"
    using assms(1) by simp
  have sign: "hd (c # cs) \<noteq> CHR ''+''" "hd (c # cs) \<noteq> CHR ''-''"
    using assms(2,3) by simp_all
  show ?thesis
    using assms(4) by (simp add: parseInt_plain [OF ws sign hex] not_decimal_digit)
qed

lemma gateNumber_of_text:
  assumes "parseGateRow row index = Inr g" and "mcn_no g = JStr s"
  shows "gateNumber g = parseInt (let r = remove1 (CHR ''G'') s in if r = [] then ''0'' else r)"
  using assms parseGateRow_fields(7,9) [OF assms(1)] by simp

lemma gateNumber_of_null:
  assumes "parseGateRow row index = Inr g" and "mcn_no g = JNull"
  shows "gateNumber g = Fin 0"
proof -
  have "parseInt ''0'' = Fin 0" by code_simp
  then show ?thesis
    using assms parseGateRow_fields(7,9) [OF assms(1)] by simp
qed

lemma group_values:
  "math_ceil (js_div (parseInt ''0'') 20) = Fin 0"
  "math_ceil (js_div (parseInt ''01'') 20) = Fin 1"
  "math_ceil (js_div (parseInt ''20'') 20) = Fin 1"
  "math_ceil (js_div (parseInt ''21'') 20) = Fin 2"
  "math_ceil (js_div (parseInt ''60'') 20) = Fin 3"
  by code_simp+

text \<open>The example sheet builds four records; its second data row is dropped.\<close>

lemma loadExcel_example:
  "loadExcel example_table new_parser =
     (Inr example_gates,
      \<lparr>rawData = Some example_table, gates = example_gates, isLoaded = True\<rparr>)"
  by code_simp

lemma fst_loadExcel_example:
  "fst (loadExcel example_table new_parser) = Inr example_gates"
  by (simp add: loadExcel_example)

lemma fst_loadExcel_example_ids:
  "fst (loadExcel example_id_table new_parser) = Inr example_id_gates"
  by code_simp

section \<open>The summary\<close>

text \<open>
  Before the first build that succeeds the parser is not loaded, and \<open>getSummary\<close> returns
  its error object.
\<close>

lemma getSummary_not_loaded: "\<not> isLoaded p \<Longrightarrow> getSummary num_text p = NotLoaded"
  by (simp add: getSummary_def)

lemma not_loaded_stays:
  "\<not> isLoaded new_parser"
  "\<not> isLoaded p \<Longrightarrow> isl (fst (loadExcel table p)) \<Longrightarrow> \<not> isLoaded (snd (loadExcel table p))"
  by (cases "table = []"; simp add: new_parser_def loadExcel_empty loadExcel_nonempty)+

text \<open>
  Counting one more record keeps the stored counts numbers and adds one to their sum, as
  long as the record's status is not the name of a property that \<open>statusCount\<close> inherits.
\<close>

lemma set_own_counts:
  assumes "list_all (\<lambda>kv. numeric (snd kv)) obj" and "k \<notin> set object_prototype_names"
  shows "list_all (\<lambda>kv. numeric (snd kv)) (set_own k (or_zero_plus_one (get_prop obj k)) obj)
       \<and> counts_sum (set_own k (or_zero_plus_one (get_prop obj k)) obj) = Suc (counts_sum obj)"
  using assms
proof (induction obj)
  case Nil
  then show ?case
    by (simp add: get_prop_def counts_sum_def)
next
  case (Cons kv obj)
  obtain k' v' where kv: "kv = (k', v')"
    by (cases kv)
  show ?case
  proof (cases "k = k'")
    case True
    with Cons.prems obtain n where "v' = CNum n"
      by (cases v') (auto simp: kv)
    with True show ?thesis
      using Cons.prems by (simp add: kv get_prop_def counts_sum_def)
  next
    case False
    then have "get_prop (kv # obj) k = get_prop obj k"
      by (simp add: kv get_prop_def)
    with False Cons show ?thesis
      by (simp add: kv counts_sum_def)
  qed
qed

lemma count_status_counts:
  assumes "list_all (\<lambda>kv. numeric (snd kv)) obj"
    and "status_key num_text g \<notin> set object_prototype_names"
  shows "list_all (\<lambda>kv. numeric (snd kv)) (count_status num_text obj g)
       \<and> counts_sum (count_status num_text obj g) = Suc (counts_sum obj)"
proof -
  have "status_key num_text g \<noteq> ''__proto__''"
    using assms(2) by (auto simp: object_prototype_names_def)
  then show ?thesis
    using set_own_counts [OF assms] unfolding status_key_def
    by (simp add: count_status_def set_prop_def Let_def status_key_def)
qed

lemma foldl_count_status:
  assumes "list_all (\<lambda>kv. numeric (snd kv)) obj"
    and "\<forall>g\<in>set gs. status_key num_text g \<notin> set object_prototype_names"
  shows "list_all (\<lambda>kv. numeric (snd kv)) (foldl (count_status num_text) obj gs)
       \<and> counts_sum (foldl (count_status num_text) obj gs) = counts_sum obj + length gs"
  using assms
proof (induction gs arbitrary: obj)
  case Nil
  then show ?case by simp
next
  case (Cons g gs)
  from count_status_counts [of obj num_text g] Cons.prems
  have step: "list_all (\<lambda>kv. numeric (snd kv)) (count_status num_text obj g)"
    "counts_sum (count_status num_text obj g) = Suc (counts_sum obj)"
    by simp_all
  from Cons.IH [OF step(1)] Cons.prems(2) step(2) show ?case
    by simp
qed

text \<open>
  After a build that succeeds the total is the number of records returned; when no status
  is the name of an inherited property, the counts are numbers and sum to the total.
\<close>

lemma getSummary_counts:
  assumes "fst (loadExcel table p) = Inr gs"
    and "\<forall>g\<in>set gs. status_key num_text g \<notin> set object_prototype_names"
  shows "\<exists>s. getSummary num_text (snd (loadExcel table p)) = Summary s
          \<and> totalGates s = length gs
          \<and> list_all (\<lambda>kv. numeric (snd kv)) (statusCount s)
          \<and> counts_sum (statusCount s) = length gs"
proof -
  from assms(1) have ne: "table \<noteq> []"
    by (auto simp: loadExcel_empty)
  with assms(1) have gs: "gates (snd (loadExcel table p)) = gs"
    and loaded: "isLoaded (snd (loadExcel table p))"
    by (simp_all add: loadExcel_nonempty)
  from foldl_count_status [of "[]" gs num_text] assms(2)
  have "list_all (\<lambda>kv. numeric (snd kv)) (foldl (count_status num_text) [] gs)"
    and "counts_sum (foldl (count_status num_text) [] gs) = length gs"
    by (simp_all add: counts_sum_def)
  then show ?thesis
    by (simp add: getSummary_def loaded gs)
qed

lemma getSummary_total:
  assumes "fst (loadExcel table p) = Inr gs"
  shows "\<exists>s. getSummary num_text (snd (loadExcel table p)) = Summary s \<and> totalGates s = length gs"
proof -
  from assms have ne: "table \<noteq> []"
    by (auto simp: loadExcel_empty)
  with assms show ?thesis
    by (simp add: loadExcel_nonempty getSummary_def)
qed

section \<open>Properties of the build and the queries\<close>



text \<open>
  C2, as amended. \<open>skirtStatuses\<close> never holds \<open>null\<close>. \<open>jointStatuses\<close> holds no \<open>null\<close>
  in a record that is not reversed; in a reversed record it holds \<open>null\<close> at position 0,
  where the reverse rule puts it, and nowhere else. Every other slot holds a truthy value,
  a status code or \<open>B\<close>. A blank source cell (empty string, \<open>null\<close> or absent) gives \<open>B\<close>
  in its status slot and \<open>null\<close> in a scalar field, except that the flag and the skirt
  quantity become the number 0.
\<close>

theorem build_status_null:
  assumes "fst (loadExcel table p) = Inr gs" and "g \<in> set gs"
    and "row = table ! Suc (rowIndex g)"
  shows "JNull \<notin> set (skirtStatuses g)
       \<and> (\<not> isReverse g \<longrightarrow> JNull \<notin> set (jointStatuses g))
       \<and> (isReverse g \<longrightarrow>
            jointStatuses g ! 0 = JNull \<and> JNull \<notin> set (drop 1 (jointStatuses g)))
       \<and> (\<forall>v. v \<in> set (skirtStatuses g) \<or> v \<in> set (jointStatuses g) \<longrightarrow>
              v = JNull \<or> truthy v)
       \<and> (\<forall>j<20. blank_cell (js_index row (38 + j)) \<longrightarrow> skirtStatuses g ! j = JStr ''B'')
       \<and> (\<not> isReverse g \<longrightarrow>
            (\<forall>j<20. blank_cell (js_index row (17 + j)) \<longrightarrow> jointStatuses g ! j = JStr ''B''))
       \<and> (isReverse g \<longrightarrow>
            (\<forall>k. 1 \<le> k \<and> k \<le> 19 \<and> blank_cell (js_index row (37 - k)) \<longrightarrow>
               jointStatuses g ! k = JStr ''B''))
       \<and> scalar_fields g = map (getCellValue row) scalar_offsets
       \<and> (\<forall>i. blank_cell (js_index row i) \<longrightarrow> getCellValue row i = JNull)
       \<and> (blank_cell (js_index row 2) \<longrightarrow> rev_flag g = JNum (Fin 0))
       \<and> (blank_cell (js_index row 14) \<longrightarrow> skirt_qty g = JNum (Fin 0))"
proof -
  from loadExcel_gate [OF assms(1,2)] assms(3)
  have row: "parseGateRow row (rowIndex g) = Inr g" by simp
  note f = parseGateRow_fields [OF row] and s = parseGateRow_scalars [OF row]
  have no_null: "JNull \<notin> set (status_cells row lo hi)" for lo hi
    using status_cells_truthy [of JNull row lo hi] by auto
  have skirt_null: "JNull \<notin> set (skirtStatuses g)"
    using no_null [of 38 58] by (simp add: f(2))
  have plain_null: "JNull \<notin> set (jointStatuses g)" if "\<not> isReverse g"
    using that no_null [of 17 37] by (simp add: f(1))
  have turned_null: "jointStatuses g ! 0 = JNull \<and> JNull \<notin> set (drop 1 (jointStatuses g))"
    if "isReverse g"
    using that no_null [of 17 37] by (auto simp: f(1) dest: in_set_dropD)
  have filled: "v = JNull \<or> truthy v"
    if "v \<in> set (skirtStatuses g) \<or> v \<in> set (jointStatuses g)" for v
    using that status_cells_truthy [of v row]
    by (auto simp: f(1,2) dest: in_set_dropD split: if_splits)
  have skirt: "\<forall>j<20. blank_cell (js_index row (38 + j)) \<longrightarrow> skirtStatuses g ! j = JStr ''B''"
    by (simp add: f(2) status_cells_nth blank_slot)
  have plain: "\<forall>j<20. blank_cell (js_index row (17 + j)) \<longrightarrow> jointStatuses g ! j = JStr ''B''"
    if "\<not> isReverse g"
    using that by (simp add: f(1) status_cells_nth blank_slot)
  have turned: "jointStatuses g ! k = JStr ''B''"
    if "isReverse g" "1 \<le> k" "k \<le> 19" "blank_cell (js_index row (37 - k))" for k
  proof -
    have "jointStatuses g ! k = status_cells row 17 37 ! (20 - k)"
      using that reversed_nth [of "status_cells row 17 37" k]
      by (simp add: f(1) length_status_cells)
    moreover have "status_cells row 17 37 ! (20 - k) =
        js_or (getCellValue row (17 + (20 - k))) (JStr ''B'')"
      using that by (simp add: status_cells_nth)
    moreover have "17 + (20 - k) = 37 - k"
      using that by arith
    ultimately show ?thesis
      using that by (simp add: blank_slot)
  qed
  have scalars: "scalar_fields g = map (getCellValue row) scalar_offsets"
    using s(1) by (simp add: scalar_fields_def scalar_offsets_def)
  have flag: "rev_flag g = JNum (Fin 0)" if "blank_cell (js_index row 2)"
    using that by (simp add: f(3) blank_scalar js_or_def)
  have qty: "skirt_qty g = JNum (Fin 0)" if "blank_cell (js_index row 14)"
    using that by (simp add: s(2) blank_scalar js_or_def)
  show ?thesis
    using skirt_null plain_null turned_null filled skirt plain turned scalars flag qty
      blank_scalar
    by blast
qed

theorem build_status_null_witness:
  "fst (loadExcel example_table new_parser) = Inr example_gates
   \<and> isReverse example_gate_a
   \<and> blank_cell (js_index example_row_a 36)
   \<and> jointStatuses example_gate_a ! 1 = JStr ''B''
   \<and> jointStatuses example_gate_a ! 0 = JNull
   \<and> JNull \<notin> set (drop 1 (jointStatuses example_gate_a))
   \<and> \<not> isReverse example_gate_c
   \<and> blank_cell (js_index example_row_c 1)
   \<and> blank_cell (js_index example_row_c 14)
   \<and> blank_cell (js_index example_row_c 19)
   \<and> blank_cell (js_index example_row_c 38)
   \<and> getCellValue example_row_c 1 = JNull
   \<and> skirt_qty example_gate_c = JNum (Fin 0)
   \<and> jointStatuses example_gate_c ! 2 = JStr ''B''
   \<and> skirtStatuses example_gate_c ! 0 = JStr ''B''
   \<and> JNull \<notin> set (jointStatuses example_gate_c)"
proof -
  note h = fst_loadExcel_example
  have a: "example_gate_a \<in> set example_gates"
    and c: "example_gate_c \<in> set example_gates"
    by (simp_all add: example_gates_def)
  have ra: "example_row_a = example_table ! Suc (rowIndex example_gate_a)"
    and rc: "example_row_c = example_table ! Suc (rowIndex example_gate_c)"
    by (simp_all add: example_table_def example_gate_a_def example_gate_c_def blank_gate_def)
  have va: "isReverse example_gate_a" and vc: "\<not> isReverse example_gate_c"
    by (simp_all add: example_gate_a_def example_gate_c_def blank_gate_def)
  have ba: "blank_cell (js_index example_row_a 36)"
    and bc: "blank_cell (js_index example_row_c 1)" "blank_cell (js_index example_row_c 14)"
      "blank_cell (js_index example_row_c 19)" "blank_cell (js_index example_row_c 38)"
    by code_simp+
  note ta = build_status_null [OF h a ra] and tc = build_status_null [OF h c rc]
  have "jointStatuses example_gate_a ! 1 = JStr ''B''"
  proof -
    have "1 \<le> (1::nat) \<and> (1::nat) \<le> 19 \<and> blank_cell (js_index example_row_a (37 - 1))"
      using ba by simp
    with ta va show ?thesis by blast
  qed
  moreover from ta va
  have "jointStatuses example_gate_a ! 0 = JNull"
    and "JNull \<notin> set (drop 1 (jointStatuses example_gate_a))"
    by blast+
  moreover have "jointStatuses example_gate_c ! 2 = JStr ''B''"
  proof -
    have "(2::nat) < 20 \<and> blank_cell (js_index example_row_c (17 + 2))"
      using bc by simp
    with tc vc show ?thesis by blast
  qed
  moreover have "skirtStatuses example_gate_c ! 0 = JStr ''B''"
  proof -
    have "(0::nat) < 20 \<and> blank_cell (js_index example_row_c (38 + 0))"
      using bc by simp
    with tc show ?thesis by blast
  qed
  moreover from tc vc bc
  have "getCellValue example_row_c 1 = JNull"
    and "skirt_qty example_gate_c = JNum (Fin 0)"
    and "JNull \<notin> set (jointStatuses example_gate_c)"
    by blast+
  ultimately show ?thesis
    using h va vc ba bc by simp
qed

theorem build_status_null_counterexample:
  "map jointStatuses
     (projr (fst (loadExcel [[JStr ''mcn_no''], [JStr ''G21'', JNull, JNum (Fin 1)]] new_parser)))
   = [JNull # replicate 19 (JStr ''B'')]"
  by code_simp

text \<open>
  C3, as amended. Let \<open>n\<close> be what \<open>parseInt\<close> reads from the gate number without its
  first \<open>G\<close>, an empty rest being read as \<open>0\<close>. When \<open>n\<close> is a number below \<open>2^53\<close> in
  magnitude, \<open>gateNumber\<close> is \<open>n\<close> and \<open>mod\<close> is \<open>ceil(n / 20)\<close>; when \<open>parseInt\<close> reads no
  number, both are \<open>NaN\<close>, not 0. A missing gate number and the gate number \<open>G\<close> give 0;
  \<open>G01\<close> and \<open>G20\<close> give 1, \<open>G21\<close> gives 2, \<open>G60\<close> gives 3. When \<open>G\<close> is followed by one to
  fifteen decimal digits, \<open>mod\<close> is the non-negative integer \<open>ceil(n / 20)\<close> for the number
  \<open>n\<close> they denote. When \<open>G\<close> is followed by a character that is no digit, sign or white
  space, \<open>mod\<close> is \<open>NaN\<close>.
\<close>

theorem build_group_index:
  assumes "fst (loadExcel table p) = Inr gs" and "g \<in> set gs"
  shows "(\<forall>s x. mcn_no g = JStr s
               \<and> parseInt (let r = remove1 (CHR ''G'') s in if r = [] then ''0'' else r) = Fin x
               \<and> \<bar>x\<bar> < 2 ^ 53 \<longrightarrow>
             gateNumber g = Fin x \<and> mod_no g = Fin (of_int \<lceil>x / 20\<rceil>))
       \<and> (\<forall>s. mcn_no g = JStr s
               \<and> parseInt (let r = remove1 (CHR ''G'') s in if r = [] then ''0'' else r) = NaN
               \<longrightarrow>
             gateNumber g = NaN \<and> mod_no g = NaN)
       \<and> (mcn_no g = JNull \<or> (\<exists>s. mcn_no g = JStr s))
       \<and> (mcn_no g = JNull \<longrightarrow> gateNumber g = Fin 0 \<and> mod_no g = Fin 0)
       \<and> (mcn_no g = JStr ''G'' \<longrightarrow> mod_no g = Fin 0)
       \<and> (mcn_no g = JStr ''G01'' \<longrightarrow> mod_no g = Fin 1)
       \<and> (mcn_no g = JStr ''G20'' \<longrightarrow> mod_no g = Fin 1)
       \<and> (mcn_no g = JStr ''G21'' \<longrightarrow> mod_no g = Fin 2)
       \<and> (mcn_no g = JStr ''G60'' \<longrightarrow> mod_no g = Fin 3)
       \<and> (\<forall>ds. mcn_no g = JStr (CHR ''G'' # ds) \<and> ds \<noteq> [] \<and> list_all is_decimal_digit ds
               \<and> length ds \<le> 15 \<longrightarrow>
             gateNumber g = Fin (of_nat (decimal ds)) \<and>
             mod_no g = Fin (of_int \<lceil>of_nat (decimal ds) / (20 :: rat)\<rceil>) \<and>
             0 \<le> \<lceil>of_nat (decimal ds) / (20 :: rat)\<rceil>)
       \<and> (\<forall>c cs. mcn_no g = JStr (CHR ''G'' # c # cs) \<and> \<not> is_white_space c
               \<and> c \<noteq> CHR ''+'' \<and> c \<noteq> CHR ''-'' \<and> \<not> is_decimal_digit c \<longrightarrow>
             mod_no g = NaN)"
proof -
  from loadExcel_gate [OF assms]
  have row: "parseGateRow (table ! Suc (rowIndex g)) (rowIndex g) = Inr g" ..
  note m = parseGateRow_fields(6) [OF row]
    and t = gateNumber_of_text [OF row] and n = gateNumber_of_null [OF row]
  have read: "gateNumber g = Fin x \<and> mod_no g = Fin (of_int \<lceil>x / 20\<rceil>)"
    if "mcn_no g = JStr s"
      "parseInt (let r = remove1 (CHR ''G'') s in if r = [] then ''0'' else r) = Fin x" for s x
    using t [OF that(1)] that(2) by (simp add: m)
  have unread_text: "gateNumber g = NaN \<and> mod_no g = NaN"
    if "mcn_no g = JStr s"
      "parseInt (let r = remove1 (CHR ''G'') s in if r = [] then ''0'' else r) = NaN" for s
    using t [OF that(1)] that(2) by (simp add: m)
  have shape: "mcn_no g = JNull \<or> (\<exists>s. mcn_no g = JStr s)"
  proof (cases "mcn_no g")
    case JUndefined
    then show ?thesis
      using parseGateRow_fields(9) [OF row]
      by (auto simp: getCellValue_def Let_def split: if_splits)
  next
    case (JBool b)
    then show ?thesis
      using parseGateRow_fields(8,9) [OF row] by simp
  next
    case (JNum k)
    then show ?thesis
      using parseGateRow_fields(8,9) [OF row] by simp
  qed simp_all
  have null: "gateNumber g = Fin 0 \<and> mod_no g = Fin 0" if "mcn_no g = JNull"
    using n [OF that] group_values(1) by (simp add: m)
  have fixed: "mcn_no g = JStr ''G'' \<longrightarrow> mod_no g = Fin 0"
    "mcn_no g = JStr ''G01'' \<longrightarrow> mod_no g = Fin 1"
    "mcn_no g = JStr ''G20'' \<longrightarrow> mod_no g = Fin 1"
    "mcn_no g = JStr ''G21'' \<longrightarrow> mod_no g = Fin 2"
    "mcn_no g = JStr ''G60'' \<longrightarrow> mod_no g = Fin 3"
    using t group_values by (auto simp: m)
  have digits: "gateNumber g = Fin (of_nat (decimal ds)) \<and>
      mod_no g = Fin (of_int \<lceil>of_nat (decimal ds) / (20 :: rat)\<rceil>) \<and>
      0 \<le> \<lceil>of_nat (decimal ds) / (20 :: rat)\<rceil>"
    if "mcn_no g = JStr (CHR ''G'' # ds)" "ds \<noteq> []" "list_all is_decimal_digit ds" for ds
  proof -
    have "gateNumber g = Fin (of_nat (decimal ds))"
      using t [OF that(1)] that(2) parseInt_decimal [OF that(2,3)] by simp
    moreover have "0 \<le> \<lceil>of_nat (decimal ds) / (20 :: rat)\<rceil>"
      by (simp add: zero_le_ceiling)
    ultimately show ?thesis
      by (simp add: m)
  qed
  have unread: "mod_no g = NaN"
    if "mcn_no g = JStr (CHR ''G'' # c # cs)" "\<not> is_white_space c" "c \<noteq> CHR ''+''"
      "c \<noteq> CHR ''-''" "\<not> is_decimal_digit c" for c cs
    using t [OF that(1)] parseInt_no_digit [OF that(2-5), of cs] by (simp add: m)
  have general: "\<forall>s x. mcn_no g = JStr s
      \<and> parseInt (let r = remove1 (CHR ''G'') s in if r = [] then ''0'' else r) = Fin x
      \<and> \<bar>x\<bar> < 2 ^ 53 \<longrightarrow>
      gateNumber g = Fin x \<and> mod_no g = Fin (of_int \<lceil>x / 20\<rceil>)"
    using read by blast
  have general_nan: "\<forall>s. mcn_no g = JStr s
      \<and> parseInt (let r = remove1 (CHR ''G'') s in if r = [] then ''0'' else r) = NaN \<longrightarrow>
      gateNumber g = NaN \<and> mod_no g = NaN"
    using unread_text by blast
  show ?thesis
    using general general_nan shape null fixed digits unread by blast
qed

theorem build_group_index_witness:
  "fst (loadExcel example_table new_parser) = Inr example_gates
   \<and> mcn_no example_gate_a = JStr ''G21''
   \<and> list_all is_decimal_digit ''21''
   \<and> gateNumber example_gate_a = Fin (of_nat (decimal ''21''))
   \<and> mod_no example_gate_a = Fin 2
   \<and> mcn_no example_gate_d = JNull
   \<and> mod_no example_gate_d = Fin 0
   \<and> mcn_no example_gate_e = JStr ''GX''
   \<and> \<not> is_white_space (CHR ''X'') \<and> \<not> is_decimal_digit (CHR ''X'')
   \<and> parseInt ''X'' = NaN
   \<and> gateNumber example_gate_e = NaN
   \<and> mod_no example_gate_e = NaN
   \<and> fst (loadExcel example_id_table new_parser) = Inr example_id_gates
   \<and> mcn_no example_gate_f = JStr ''G-21''
   \<and> parseInt ''-21'' = Fin (- 21) \<and> \<bar>- 21 :: rat\<bar> < 2 ^ 53
   \<and> gateNumber example_gate_f = Fin (- 21)
   \<and> mod_no example_gate_f = Fin (of_int \<lceil>- 21 / (20 :: rat)\<rceil>)
   \<and> mcn_no example_gate_h = JStr ''G0x1F''
   \<and> parseInt ''0x1F'' = Fin 31 \<and> \<bar>31 :: rat\<bar> < 2 ^ 53
   \<and> gateNumber example_gate_h = Fin 31
   \<and> mod_no example_gate_h = Fin (of_int \<lceil>31 / (20 :: rat)\<rceil>)
   \<and> mcn_no example_gate_i = JStr ''1G25''
   \<and> parseInt ''125'' = Fin 125 \<and> \<bar>125 :: rat\<bar> < 2 ^ 53
   \<and> gateNumber example_gate_i = Fin 125
   \<and> mod_no example_gate_i = Fin (of_int \<lceil>125 / (20 :: rat)\<rceil>)
   \<and> \<lceil>- 21 / (20 :: rat)\<rceil> = - 1 \<and> \<lceil>31 / (20 :: rat)\<rceil> = 2
   \<and> \<lceil>125 / (20 :: rat)\<rceil> = 7"
proof -
  note h = fst_loadExcel_example and h' = fst_loadExcel_example_ids
  have a: "example_gate_a \<in> set example_gates" and d: "example_gate_d \<in> set example_gates"
    and e: "example_gate_e \<in> set example_gates"
    by (simp_all add: example_gates_def)
  have f: "example_gate_f \<in> set example_id_gates"
    and hh: "example_gate_h \<in> set example_id_gates"
    and i: "example_gate_i \<in> set example_id_gates"
    by (simp_all add: example_id_gates_def)
  have ia: "mcn_no example_gate_a = JStr (CHR ''G'' # ''21'')"
    and id: "mcn_no example_gate_d = JNull"
    and ie: "mcn_no example_gate_e = JStr (CHR ''G'' # CHR ''X'' # [])"
    by (simp_all add: example_gate_a_def example_gate_d_def example_gate_e_def blank_gate_def)
  have idf: "mcn_no example_gate_f = JStr ''G-21''"
    and idh: "mcn_no example_gate_h = JStr ''G0x1F''"
    and idi: "mcn_no example_gate_i = JStr ''1G25''"
    by (simp_all add: example_gate_f_def example_gate_h_def example_gate_i_def blank_gate_def)
  have digits: "''21'' \<noteq> []" "list_all is_decimal_digit ''21''" "length ''21'' \<le> 15"
    by (simp_all add: is_decimal_digit_def)
  have letter: "\<not> is_white_space (CHR ''X'')" "CHR ''X'' \<noteq> CHR ''+''"
    "CHR ''X'' \<noteq> CHR ''-''" "\<not> is_decimal_digit (CHR ''X'')"
    by (simp_all add: is_white_space_def is_decimal_digit_def)
  have pe: "parseInt ''X'' = NaN"
    and pf: "parseInt ''-21'' = Fin (- 21)"
    and ph: "parseInt ''0x1F'' = Fin 31"
    and pi: "parseInt ''125'' = Fin 125"
    by code_simp+
  have small: "\<bar>- 21 :: rat\<bar> < 2 ^ 53" "\<bar>31 :: rat\<bar> < 2 ^ 53" "\<bar>125 :: rat\<bar> < 2 ^ 53"
    by simp_all
  have ceilings: "\<lceil>- 21 / (20 :: rat)\<rceil> = - 1" "\<lceil>31 / (20 :: rat)\<rceil> = 2"
    "\<lceil>125 / (20 :: rat)\<rceil> = 7"
    by code_simp+
  note ta = build_group_index [OF h a] and td = build_group_index [OF h d]
    and te = build_group_index [OF h e] and tf = build_group_index [OF h' f]
    and th = build_group_index [OF h' hh] and ti = build_group_index [OF h' i]
  from ta ia digits
  have ra: "gateNumber example_gate_a = Fin (of_nat (decimal ''21''))"
    "mod_no example_gate_a = Fin 2"
    by blast+
  from td id have rd: "mod_no example_gate_d = Fin 0"
    by blast
  have re: "gateNumber example_gate_e = NaN \<and> mod_no example_gate_e = NaN"
  proof -
    have "parseInt (let r = remove1 (CHR ''G'') ''GX'' in if r = [] then ''0'' else r) = NaN"
      using pe by simp
    with te ie show ?thesis by blast
  qed
  have rf: "gateNumber example_gate_f = Fin (- 21)
      \<and> mod_no example_gate_f = Fin (of_int \<lceil>- 21 / (20 :: rat)\<rceil>)"
  proof -
    have "parseInt (let r = remove1 (CHR ''G'') ''G-21'' in if r = [] then ''0'' else r)
        = Fin (- 21)"
      using pf by simp
    with tf idf small(1) show ?thesis by blast
  qed
  have rh: "gateNumber example_gate_h = Fin 31
      \<and> mod_no example_gate_h = Fin (of_int \<lceil>31 / (20 :: rat)\<rceil>)"
  proof -
    have "parseInt (let r = remove1 (CHR ''G'') ''G0x1F'' in if r = [] then ''0'' else r)
        = Fin 31"
      using ph by simp
    with th idh small(2) show ?thesis by blast
  qed
  have ri: "gateNumber example_gate_i = Fin 125
      \<and> mod_no example_gate_i = Fin (of_int \<lceil>125 / (20 :: rat)\<rceil>)"
  proof -
    have "parseInt (let r = remove1 (CHR ''G'') ''1G25'' in if r = [] then ''0'' else r)
        = Fin 125"
      using pi by simp
    with ti idi small(3) show ?thesis by blast
  qed
  show ?thesis
    using h h' ia id ie idf idh idi digits letter pe pf ph pi small ra rd re rf rh ri
    unfolding ceilings by simp
qed

theorem build_group_index_counterexample:
  "map mod_no
     (projr (fst (loadExcel [[JStr ''mcn_no''], [JStr ''GX''], [JStr ''G-21'']] new_parser)))
   = [NaN, Fin (- 1)]"
  by code_simp

text \<open>
  C4, as amended. A build from a sheet with no row at all fails with \<open>DataEmpty\<close> and
  leaves the records and the loaded flag as they were. A build from a sheet that has a
  header and no data row does not fail: it returns no record. Every sheet with at least
  one row builds, returns the records it stored and sets the loaded flag.
\<close>

theorem build_data_empty:
  "fst (loadExcel [] p) = Inl DataEmpty
   \<and> gates (snd (loadExcel [] p)) = gates p
   \<and> isLoaded (snd (loadExcel [] p)) = isLoaded p
   \<and> fst (loadExcel [header] p) = Inr []
   \<and> (table \<noteq> [] \<longrightarrow>
        fst (loadExcel table p) = Inr (gates (snd (loadExcel table p)))
        \<and> isLoaded (snd (loadExcel table p)))"
  by (simp add: loadExcel_empty loadExcel_nonempty gates_of_rows_def)

theorem build_data_empty_witness:
  "example_table \<noteq> []
   \<and> fst (loadExcel example_table new_parser) =
       Inr (gates (snd (loadExcel example_table new_parser)))
   \<and> isLoaded (snd (loadExcel example_table new_parser))"
proof -
  have ne: "example_table \<noteq> []"
    by (simp add: example_table_def)
  with build_data_empty [of new_parser "[]" example_table] show ?thesis
    by blast
qed

theorem build_data_empty_counterexample:
  "fst (loadExcel [[JStr ''mcn_no'']] new_parser) = Inr []
   \<and> fst (loadExcel [[JStr ''mcn_no'']] new_parser) \<noteq> Inl DataEmpty"
  by (simp add: loadExcel_nonempty gates_of_rows_def)

text \<open>
  C5. A data row whose \<open>parseGateRow\<close> throws is dropped and the build goes on: on a sheet
  with a header the build returns, its records are those of the rows that did not throw,
  each the record of its row, in the order of the rows (their row indices are the indices
  of the rows that did not throw, ascending), and they are at most as many as the data
  rows.
\<close>

theorem build_keeps_row_order:
  assumes "table \<noteq> []" and "dataRows = drop 1 table"
  shows "\<exists>gs. fst (loadExcel table p) = Inr gs
          \<and> gates (snd (loadExcel table p)) = gs
          \<and> length gs \<le> length dataRows
          \<and> map rowIndex gs =
              filter (\<lambda>i. \<not> isl (parseGateRow (dataRows ! i) i)) [0..<length dataRows]
          \<and> (\<forall>k<length gs.
                parseGateRow (dataRows ! rowIndex (gs ! k)) (rowIndex (gs ! k)) = Inr (gs ! k))"
proof -
  let ?ok = "\<lambda>i. \<not> isl (parseGateRow (dataRows ! i) i)"
  let ?gs = "gates_of_rows dataRows"
  have gs: "?gs = map (\<lambda>i. projr (parseGateRow (dataRows ! i) i)) (filter ?ok [0..<length dataRows])"
    by (rule gates_of_rows_eq)
  have len: "length ?gs \<le> length dataRows"
    using length_filter_le [of ?ok "[0..<length dataRows]"] by (simp add: gs)
  have "rowIndex (projr (parseGateRow (dataRows ! i) i)) = i" if "?ok i" for i
    using that parseGateRow_fields(5) [of "dataRows ! i" i]
    by (cases "parseGateRow (dataRows ! i) i") auto
  then have "map (\<lambda>i. rowIndex (projr (parseGateRow (dataRows ! i) i))) (filter ?ok xs) =
      filter ?ok xs" for xs
    by (induction xs) simp_all
  then have idx: "map rowIndex ?gs = filter ?ok [0..<length dataRows]"
    unfolding gs by (simp add: comp_def)
  have each: "parseGateRow (dataRows ! rowIndex (?gs ! k)) (rowIndex (?gs ! k)) = Inr (?gs ! k)"
    if "k < length ?gs" for k
    using gates_of_rows_member [of "?gs ! k" dataRows] that by simp
  show ?thesis
    using assms len idx each by (simp add: loadExcel_nonempty)
qed

theorem build_keeps_row_order_witness:
  "example_table \<noteq> []
   \<and> fst (loadExcel example_table new_parser) = Inr example_gates
   \<and> isl (parseGateRow (drop 1 example_table ! 1) 1)
   \<and> filter (\<lambda>i. \<not> isl (parseGateRow (drop 1 example_table ! i) i))
        [0..<length (drop 1 example_table)] = [0, 2, 3, 4]
   \<and> length example_gates \<le> length (drop 1 example_table)"
proof -
  have ne: "example_table \<noteq> []"
    by (simp add: example_table_def)
  have idx: "map rowIndex example_gates = [0, 2, 3, 4]"
    by (simp add: example_gates_def example_gate_a_def example_gate_c_def example_gate_d_def
        example_gate_e_def blank_gate_def)
  have bad: "isl (parseGateRow (drop 1 example_table ! 1) 1)"
    by code_simp
  from build_keeps_row_order [OF ne refl, of new_parser] fst_loadExcel_example
  have "map rowIndex example_gates =
          filter (\<lambda>i. \<not> isl (parseGateRow (drop 1 example_table ! i) i))
            [0..<length (drop 1 example_table)]"
    and "length example_gates \<le> length (drop 1 example_table)"
    by auto
  with ne idx bad fst_loadExcel_example show ?thesis
    by simp
qed

text \<open>
  C6. Every record that a build produces has exactly 20 joint statuses and exactly 20
  skirt statuses, whatever cells the row lacks at its end and whether or not the joints
  were reversed.
\<close>

theorem build_status_lengths:
  assumes "fst (loadExcel table p) = Inr gs" and "g \<in> set gs"
  shows "length (jointStatuses g) = 20 \<and> length (skirtStatuses g) = 20"
proof -
  from loadExcel_gate [OF assms]
  have row: "parseGateRow (table ! Suc (rowIndex g)) (rowIndex g) = Inr g" ..
  show ?thesis
    by (simp add: parseGateRow_fields(1,2) [OF row] status_cells_def)
qed

theorem build_status_lengths_witness:
  "fst (loadExcel example_table new_parser) = Inr example_gates
   \<and> length (jointStatuses example_gate_a) = 20
   \<and> length (skirtStatuses example_gate_a) = 20"
  using build_status_lengths [of example_table new_parser example_gates example_gate_a]
    fst_loadExcel_example
  by (simp add: example_gates_def)

text \<open>
  C7. Before a build has succeeded \<open>getSummary\<close> reports that nothing is loaded, and
  after one its total is the number of records and its counts per status sum to the
  total. The first two hold (\<open>getSummary_not_loaded\<close>, \<open>getSummary_total\<close>), and so does the
  third while no status names an inherited property (\<open>getSummary_counts\<close>). It fails on a
  sheet whose only record has the status \<open>constructor\<close>: \<open>statusCount[status]\<close> then reads
  the function every object inherits, \<open>(f || 0) + 1\<close> is a text, and \<open>statusCount\<close> holds
  that text in place of the count 1.
\<close>

theorem summary_constructor_status:
  "getSummary num_text
     (snd (loadExcel
        [[JStr ''mcn_no''],
         [JStr ''G01'', JNull, JNull, JNull, JNull, JStr ''constructor'']] new_parser))
   = Summary \<lparr>totalGates = 1, mod1 = 1, mod2 = 0, mod3 = 0,
       statusCount = [(''constructor'', CText)], reverseCount = 0\<rparr>"
  by code_simp

text \<open>
  C8, as amended. For a number other than 0, \<open>filterByMod\<close> returns exactly the records
  whose \<open>mod\<close> is that number. With no argument, and with any falsy argument (the number
  0 among them), it returns all records. For a truthy argument it returns the records
  whose \<open>mod\<close> is strictly equal to it.
\<close>

theorem filterByMod_selects:
  "(x \<noteq> 0 \<longrightarrow>
      filterByMod (JNum (Fin x)) p = filter (\<lambda>g. mod_no g = Fin x) (gates p))
   \<and> filterByMod JUndefined p = gates p
   \<and> (\<not> truthy m \<longrightarrow> filterByMod m p = gates p)
   \<and> (truthy m \<longrightarrow>
        filterByMod m p = filter (\<lambda>g. strict_eq (JNum (mod_no g)) m) (gates p))"
  by (auto simp: filterByMod_def strict_eq_def intro: filter_cong)

theorem filterByMod_selects_witness:
  "(1 :: rat) \<noteq> 0
   \<and> filterByMod (JNum (Fin 1)) (snd (loadExcel example_table new_parser)) = [example_gate_c]
   \<and> \<not> truthy (JNum (Fin 0))
   \<and> filterByMod (JNum (Fin 0)) (snd (loadExcel example_table new_parser)) = example_gates
   \<and> truthy (JStr ''1'')
   \<and> filterByMod (JStr ''1'') (snd (loadExcel example_table new_parser)) = []"
proof -
  let ?p = "snd (loadExcel example_table new_parser)"
  have g: "gates ?p = example_gates"
    by (simp add: loadExcel_example)
  have m: "map mod_no example_gates = [Fin 2, Fin 1, Fin 0, NaN]"
    by (simp add: example_gates_def example_gate_a_def example_gate_c_def example_gate_d_def
        example_gate_e_def blank_gate_def)
  then have ms: "mod_no example_gate_a = Fin 2" "mod_no example_gate_c = Fin 1"
    "mod_no example_gate_d = Fin 0" "mod_no example_gate_e = NaN"
    by (simp_all add: example_gates_def)
  note t = filterByMod_selects [of 1 ?p "JNum (Fin 0)"] filterByMod_selects [of 1 ?p "JStr ''1''"]
  have "filterByMod (JNum (Fin 1)) ?p = [example_gate_c]"
    using t(1) by (simp add: g example_gates_def ms)
  moreover have "filterByMod (JNum (Fin 0)) ?p = example_gates"
    using t(1) by (simp add: g)
  moreover have "filterByMod (JStr ''1'') ?p = []"
    using t(2) by (simp add: g strict_eq_def)
  ultimately show ?thesis
    by simp
qed

theorem filterByMod_selects_counterexample:
  "map mod_no
     (filterByMod (JNum (Fin 0))
        (snd (loadExcel [[JStr ''mcn_no''], [JStr ''G01''], []] new_parser)))
   = [Fin 1, Fin 0]"
  by code_simp

text \<open>
  C9. The reverse rule looks at the type of the flag: when the cell at offset 2 holds the
  text \<open>1\<close> and not the number 1, the comparison \<open>rev_flag === 1\<close> fails, so \<open>isReverse\<close>
  is false and \<open>jointStatuses\<close> is as extracted.
\<close>

theorem text_flag_not_reversed:
  assumes "fst (loadExcel table p) = Inr gs" and "g \<in> set gs"
    and "row = table ! Suc (rowIndex g)"
    and "js_index row 2 = JStr ''1''"
  shows "rev_flag g = JStr ''1'' \<and> isReverse g = False
       \<and> jointStatuses g = status_cells row 17 37"
proof -
  from loadExcel_gate [OF assms(1,2)] assms(3)
  have row: "parseGateRow row (rowIndex g) = Inr g" by simp
  have "rev_flag g = JStr ''1''"
    using assms(4) by (simp add: parseGateRow_fields(3) [OF row] getCellValue_def js_or_def)
  then show ?thesis
    by (simp add: parseGateRow_fields(1) [OF row] isReverse_iff [OF row])
qed

theorem text_flag_not_reversed_witness:
  "fst (loadExcel example_table new_parser) = Inr example_gates
   \<and> js_index example_row_c 2 = JStr ''1''
   \<and> isReverse example_gate_c = False
   \<and> jointStatuses example_gate_c = status_cells example_row_c 17 37"
proof -
  note h = fst_loadExcel_example
  have c: "example_gate_c \<in> set example_gates"
    by (simp add: example_gates_def)
  have rc: "example_row_c = example_table ! Suc (rowIndex example_gate_c)"
    by (simp add: example_table_def example_gate_c_def blank_gate_def)
  have fc: "js_index example_row_c 2 = JStr ''1''"
    by code_simp
  from text_flag_not_reversed [OF h c rc fc] h fc show ?thesis by simp
qed

text \<open>
  C10. The default \<open>B\<close> replaces every falsy cell, the number 0 included: a status slot
  whose source cell holds the number 0 holds \<open>B\<close>, and no slot of a record holds the
  number 0. In a reversed record the source cell of joint slot \<open>k\<close>, for \<open>k\<close> from 1 to
  19, is the cell at offset \<open>37 - k\<close>; slot 0 has none.
\<close>

theorem zero_cell_becomes_B:
  assumes "fst (loadExcel table p) = Inr gs" and "g \<in> set gs"
    and "row = table ! Suc (rowIndex g)"
  shows "(\<forall>j<20. js_index row (38 + j) = JNum (Fin 0) \<longrightarrow> skirtStatuses g ! j = JStr ''B'')
       \<and> (\<not> isReverse g \<longrightarrow>
            (\<forall>j<20. js_index row (17 + j) = JNum (Fin 0) \<longrightarrow> jointStatuses g ! j = JStr ''B''))
       \<and> (isReverse g \<longrightarrow>
            (\<forall>k. 1 \<le> k \<and> k \<le> 19 \<and> js_index row (37 - k) = JNum (Fin 0) \<longrightarrow>
               jointStatuses g ! k = JStr ''B''))
       \<and> JNum (Fin 0) \<notin> set (jointStatuses g)
       \<and> JNum (Fin 0) \<notin> set (skirtStatuses g)"
proof -
  from loadExcel_gate [OF assms(1,2)] assms(3)
  have row: "parseGateRow row (rowIndex g) = Inr g" by simp
  note f = parseGateRow_fields [OF row]
  have zero: "js_or (getCellValue row i) (JStr ''B'') = JStr ''B''"
    if "js_index row i = JNum (Fin 0)" for i
    using that by (simp add: status_slot)
  have skirt: "\<forall>j<20. js_index row (38 + j) = JNum (Fin 0) \<longrightarrow> skirtStatuses g ! j = JStr ''B''"
    by (simp add: f(2) status_cells_nth zero)
  have plain: "\<forall>j<20. js_index row (17 + j) = JNum (Fin 0) \<longrightarrow> jointStatuses g ! j = JStr ''B''"
    if "\<not> isReverse g"
    using that by (simp add: f(1) status_cells_nth zero)
  have turned: "jointStatuses g ! k = JStr ''B''"
    if "isReverse g" "1 \<le> k" "k \<le> 19" "js_index row (37 - k) = JNum (Fin 0)" for k
  proof -
    have "jointStatuses g ! k = status_cells row 17 37 ! (20 - k)"
      using that reversed_nth [of "status_cells row 17 37" k]
      by (simp add: f(1) length_status_cells)
    also have "\<dots> = js_or (getCellValue row (17 + (20 - k))) (JStr ''B'')"
      using that by (simp add: status_cells_nth)
    also have "17 + (20 - k) = 37 - k"
      using that by arith
    finally show ?thesis
      using that by (simp add: zero)
  qed
  have no_zero: "JNum (Fin 0) \<notin> set (status_cells row lo hi)" for lo hi
    using status_cells_truthy [of "JNum (Fin 0)" row lo hi] by auto
  have "JNum (Fin 0) \<notin> set (jointStatuses g)"
    using no_zero [of 17 37] by (auto simp: f(1) dest: in_set_dropD)
  moreover have "JNum (Fin 0) \<notin> set (skirtStatuses g)"
    using no_zero [of 38 58] by (simp add: f(2))
  ultimately show ?thesis
    using skirt plain turned by blast
qed

theorem zero_cell_becomes_B_witness:
  "fst (loadExcel example_table new_parser) = Inr example_gates
   \<and> js_index example_row_c 17 = JNum (Fin 0)
   \<and> jointStatuses example_gate_c ! 0 = JStr ''B''
   \<and> js_index example_row_a 19 = JNum (Fin 0)
   \<and> jointStatuses example_gate_a ! 18 = JStr ''B''
   \<and> JNum (Fin 0) \<notin> set (jointStatuses example_gate_a)"
proof -
  note h = fst_loadExcel_example
  have a: "example_gate_a \<in> set example_gates"
    and c: "example_gate_c \<in> set example_gates"
    by (simp_all add: example_gates_def)
  have ra: "example_row_a = example_table ! Suc (rowIndex example_gate_a)"
    and rc: "example_row_c = example_table ! Suc (rowIndex example_gate_c)"
    by (simp_all add: example_table_def example_gate_a_def example_gate_c_def blank_gate_def)
  have za': "js_index example_row_a 19 = JNum (Fin 0)"
    and zc': "js_index example_row_c 17 = JNum (Fin 0)"
    by code_simp+
  then have za: "js_index example_row_a (37 - 18) = JNum (Fin 0)"
    and zc: "js_index example_row_c (17 + 0) = JNum (Fin 0)"
    by simp_all
  have va: "isReverse example_gate_a" and vc: "\<not> isReverse example_gate_c"
    by (simp_all add: example_gate_a_def example_gate_c_def blank_gate_def)
  from zero_cell_becomes_B [OF h a ra] va za
  have "jointStatuses example_gate_a ! 18 = JStr ''B''"
    and "JNum (Fin 0) \<notin> set (jointStatuses example_gate_a)"
    by simp_all
  moreover from zero_cell_becomes_B [OF h c rc] vc zc
  have "jointStatuses example_gate_c ! 0 = JStr ''B''"
    by (metis zero_less_numeral)
  ultimately show ?thesis
    using h za' zc' by simp
qed

end
